theory Spec2Isabelle
  imports Complex_Main
begin

section \<open>The state module (TimerState.js)\<close>

text \<open>
  JavaScript numbers (durations and timestamps in milliseconds) are modelled as
  \<^typ>\<open>real\<close>: \<open>RENDER_RATE\<close> is the fraction \<open>1000 / 30\<close>, and settings and deltas
  are arbitrary numbers. The rounding of doubles, NaN and the infinities are outside
  the model. A field that holds \<open>null\<close> or a number is a \<^typ>\<open>real option\<close>.
\<close>

datatype phase = Idle | Work

definition SECOND :: real where
  "SECOND = 1000"

definition MINUTE :: real where
  "MINUTE = 60 * 1000"

definition RENDER_RATE :: real where
  "RENDER_RATE = 1000 / 30"

definition SOON_TIME :: real where
  "SOON_TIME = 10 * 1000"

definition MIN_ROUND_TIME :: real where
  "MIN_ROUND_TIME = 30 * 1000"

text \<open>
  The object \<open>{roundTime}\<close> that \<open>validateSettings\<close> returns, and the timer state, which
  has a \<open>roundTime\<close> field too: the spread \<open>{...state, ...validated}\<close> overwrites exactly
  that field.
\<close>

record settings =
  roundTime :: real

record timer_state = settings +
  isRunning :: bool
  timeLeft :: real
  phase :: phase
  startTime :: "real option"
  sessionStartTime :: "real option"
  soonSoundPlayed :: bool

definition createInitialState :: "real \<Rightarrow> timer_state" where
  "createInitialState rt =
     \<lparr> roundTime = rt,
       isRunning = False,
       timeLeft = rt,
       phase = Idle,
       startTime = None,
       sessionStartTime = None,
       soonSoundPlayed = False \<rparr>"

definition validateSettings :: "real \<Rightarrow> settings" where
  "validateSettings rt = \<lparr> roundTime = max MIN_ROUND_TIME rt \<rparr>"

definition getCurrentPhaseDuration :: "timer_state \<Rightarrow> real" where
  "getCurrentPhaseDuration st = roundTime st"

definition shouldTransitionPhase :: "timer_state \<Rightarrow> bool" where
  "shouldTransitionPhase st \<longleftrightarrow> timeLeft st \<le> 0"

text \<open>
  \<open>createPhaseTransition\<close> reads the clock itself; the reading is the first argument.
  The \<open>updates\<close> object is built in two steps, as in the source, and merged over the
  old state.
\<close>

definition createPhaseTransition :: "real \<Rightarrow> timer_state \<Rightarrow> phase \<Rightarrow> timer_state" where
  "createPhaseTransition now st newPhase =
     (let updates = st\<lparr> phase := newPhase, startTime := Some now, soonSoundPlayed := False \<rparr>
      in case newPhase of
           Work \<Rightarrow> updates\<lparr> timeLeft := roundTime st \<rparr>
         | Idle \<Rightarrow> updates\<lparr> timeLeft := roundTime st,
                            isRunning := False,
                            startTime := None,
                            sessionStartTime := None \<rparr>)"

section \<open>The timer engine (class TimerLogic)\<close>

text \<open>
  A subscriber is a callback; the model knows it by a number and takes it not to call
  back into the engine. What the engine does to the outside world is recorded in a
  trace, in call order: the calls to the audio manager, and each call of a subscriber
  with the snapshot \<open>getState()\<close> hands to it.
\<close>

type_synonym callback = nat

datatype effect =
    AudioInitialize
  | PlaySoon
  | PlayFinish
  | Notify callback timer_state

text \<open>
  The value \<open>setInterval\<close> returns: a positive integer in a browser, a \<open>Timeout\<close> object
  under Node. Either is truthy, so \<open>if (this.intervalId)\<close> and
  \<open>this.intervalId !== null\<close> test the same thing, and a handle is an opaque value.
\<close>

datatype handle = Handle nat

text \<open>
  The engine's fields (the \<open>Set\<close> of subscribers in insertion order, which is the order
  \<open>forEach\<close> visits), the trace, and the host's side of \<open>setInterval\<close> and
  \<open>clearInterval\<close>: the handles whose callback is still scheduled, and how many handles
  the host has issued.
\<close>

record engine =
  state :: timer_state
  subscribers :: "callback list"
  intervalId :: "handle option"
  lastActionTime :: real
  lastNotifyTime :: real
  trace :: "effect list"
  scheduled :: "handle list"
  issued :: nat

text \<open>JavaScript truthiness of a value that is \<open>null\<close> or a number: \<open>null\<close> and \<open>0\<close> are falsy.\<close>

definition truthy :: "real option \<Rightarrow> bool" where
  "truthy v = (case v of None \<Rightarrow> False | Some x \<Rightarrow> x \<noteq> 0)"

definition setInterval :: "engine \<Rightarrow> handle \<times> engine" where
  "setInterval e =
     (let h = Handle (issued e)
      in (h, e\<lparr> scheduled := scheduled e @ [h], issued := Suc (issued e) \<rparr>))"

definition clearInterval :: "handle \<Rightarrow> engine \<Rightarrow> engine" where
  "clearInterval h e = e\<lparr> scheduled := removeAll h (scheduled e) \<rparr>"

text \<open>
  The constructor. \<open>initialSettings.roundTime\<close> is \<open>None\<close> when the option is absent;
  \<open>x || d\<close> takes \<open>d\<close> when \<open>x\<close> is falsy.
\<close>

definition TimerLogic :: "real option \<Rightarrow> engine" where
  "TimerLogic initialRoundTime =
     (let validated = validateSettings
            (if truthy initialRoundTime then the initialRoundTime else 5 * 60 * 1000)
      in \<lparr> state = createInitialState (roundTime validated),
           subscribers = [],
           intervalId = None,
           lastActionTime = 0,
           lastNotifyTime = 0,
           trace = [],
           scheduled = [],
           issued = 0 \<rparr>)"

text \<open>\<open>subscribe\<close> adds to the set; the function it returns is \<open>unsubscribe\<close>.\<close>

definition subscribe :: "callback \<Rightarrow> engine \<Rightarrow> engine" where
  "subscribe cb e =
     (if cb \<in> set (subscribers e) then e
      else e\<lparr> subscribers := subscribers e @ [cb] \<rparr>)"

definition unsubscribe :: "callback \<Rightarrow> engine \<Rightarrow> engine" where
  "unsubscribe cb e = e\<lparr> subscribers := removeAll cb (subscribers e) \<rparr>"

definition getState :: "engine \<Rightarrow> timer_state" where
  "getState e = state e"

definition notifySubscribers :: "engine \<Rightarrow> engine" where
  "notifySubscribers e =
     e\<lparr> trace := trace e @ map (\<lambda>cb. Notify cb (getState e)) (subscribers e) \<rparr>"

text \<open>\<open>newSettings.roundTime ?? this.state.roundTime\<close>: the fallback is taken on \<open>None\<close> only.\<close>

definition updateSettings :: "real option \<Rightarrow> engine \<Rightarrow> engine" where
  "updateSettings newRoundTime e =
     (let validated = validateSettings
            (case newRoundTime of None \<Rightarrow> roundTime (state e) | Some r \<Rightarrow> r);
          e1 = e\<lparr> state := (state e)\<lparr> roundTime := roundTime validated \<rparr> \<rparr>;
          e2 = (if phase (state e1) = Idle
                then e1\<lparr> state := (state e1)\<lparr> timeLeft := roundTime validated \<rparr> \<rparr>
                else e1)
      in notifySubscribers e2)"

definition startTicking :: "engine \<Rightarrow> engine" where
  "startTicking e =
     (let e1 = (case intervalId e of None \<Rightarrow> e | Some h \<Rightarrow> clearInterval h e);
          (h, e2) = setInterval e1
      in e2\<lparr> intervalId := Some h \<rparr>)"

definition stopTicking :: "engine \<Rightarrow> engine" where
  "stopTicking e =
     (case intervalId e of
        None \<Rightarrow> e
      | Some h \<Rightarrow> (clearInterval h e)\<lparr> intervalId := None \<rparr>)"

definition transitionToPhase :: "real \<Rightarrow> phase \<Rightarrow> engine \<Rightarrow> engine" where
  "transitionToPhase now newPhase e =
     e\<lparr> state := createPhaseTransition now (state e) newPhase \<rparr>"

text \<open>
  \<open>start\<close> reads the clock once (\<open>now\<close>); when it starts from Idle,
  \<open>createPhaseTransition\<close> reads it again, later (\<open>now'\<close>).
\<close>

definition start :: "real \<Rightarrow> real \<Rightarrow> engine \<Rightarrow> engine" where
  "start now now' e =
     (if isRunning (state e) then e
      else
        let e1 = e\<lparr> trace := trace e @ [AudioInitialize] \<rparr>;
            e2 = (if phase (state e1) = Idle
                  then (let e' = transitionToPhase now' Work e1
                        in e'\<lparr> state := (state e')\<lparr> startTime := Some now \<rparr> \<rparr>)
                  else (let currentPhaseDuration = getCurrentPhaseDuration (state e1)
                        in e1\<lparr> state := (state e1)
                             \<lparr> startTime :=
                                 Some (now - (currentPhaseDuration - timeLeft (state e1))) \<rparr> \<rparr>));
            e3 = e2\<lparr> state := (state e2)\<lparr> isRunning := True \<rparr> \<rparr>;
            e4 = (if \<not> truthy (sessionStartTime (state e3))
                  then e3\<lparr> state := (state e3)\<lparr> sessionStartTime := Some now \<rparr> \<rparr>
                  else e3)
        in notifySubscribers (startTicking e4))"

definition pause :: "engine \<Rightarrow> engine" where
  "pause e =
     (if \<not> isRunning (state e) then e
      else notifySubscribers (stopTicking (e\<lparr> state := (state e)\<lparr> isRunning := False \<rparr> \<rparr>)))"

definition reset :: "engine \<Rightarrow> engine" where
  "reset e =
     (let e1 = stopTicking e
      in notifySubscribers (e1\<lparr> state := createInitialState (roundTime (state e1)) \<rparr>))"

text \<open>\<open>toggle\<close> reads the clock for the debounce (\<open>tnow\<close>) before \<open>start\<close> reads it.\<close>

definition toggle :: "real \<Rightarrow> real \<Rightarrow> real \<Rightarrow> engine \<Rightarrow> engine" where
  "toggle tnow now now' e =
     (if tnow - lastActionTime e < 100 then e
      else
        let e1 = e\<lparr> lastActionTime := tnow \<rparr>
        in if isRunning (state e1) then pause e1 else start now now' e1)"

text \<open>\<open>adjustCurrentTime\<close> reads the clock (\<open>now\<close>) only when the timer is running.\<close>

definition adjustCurrentTime :: "real \<Rightarrow> real \<Rightarrow> engine \<Rightarrow> engine" where
  "adjustCurrentTime deltaMs now e =
     (let currentPhaseDuration = getCurrentPhaseDuration (state e);
          newTimeLeft = min (max 0 (timeLeft (state e) + deltaMs)) currentPhaseDuration;
          e1 = e\<lparr> state := (state e)\<lparr> timeLeft := newTimeLeft \<rparr> \<rparr>;
          e2 = (if isRunning (state e1)
                then e1\<lparr> state := (state e1)
                       \<lparr> startTime := Some (now - (currentPhaseDuration - newTimeLeft)) \<rparr> \<rparr>
                else e1)
      in notifySubscribers e2)"

definition checkAudioCues :: "engine \<Rightarrow> engine" where
  "checkAudioCues e =
     (if phase (state e) = Work \<and>
         timeLeft (state e) \<le> SOON_TIME \<and>
         timeLeft (state e) > SOON_TIME - RENDER_RATE * 2 \<and>
         \<not> soonSoundPlayed (state e)
      then e\<lparr> trace := trace e @ [PlaySoon],
              state := (state e)\<lparr> soonSoundPlayed := True \<rparr> \<rparr>
      else e)"

definition handlePhaseTransition :: "engine \<Rightarrow> engine" where
  "handlePhaseTransition e =
     (let e1 = e\<lparr> state := (state e)\<lparr> timeLeft := 0 \<rparr> \<rparr>
      in if phase (state e1) = Work
         then reset (e1\<lparr> trace := trace e1 @ [PlayFinish] \<rparr>)
         else notifySubscribers e1)"

text \<open>
  One firing of the interval callback at clock reading \<open>now\<close>. \<open>lastNotifyTime\<close> is a
  number, falsy when it is \<open>0\<close>.
\<close>

definition tick :: "real \<Rightarrow> engine \<Rightarrow> engine" where
  "tick now e =
     (if \<not> isRunning (state e) \<or> \<not> truthy (startTime (state e)) \<or> intervalId e = None
      then e
      else
        let currentPhaseDuration = getCurrentPhaseDuration (state e);
            elapsedTimeInPhase = now - the (startTime (state e));
            newTimeLeft = currentPhaseDuration - elapsedTimeInPhase;
            e1 = e\<lparr> state := (state e)\<lparr> timeLeft := newTimeLeft \<rparr> \<rparr>
        in if shouldTransitionPhase (state e1) then handlePhaseTransition e1
           else
             let e2 = checkAudioCues e1;
                 shouldNotify = (lastNotifyTime e2 = 0 \<or> now - lastNotifyTime e2 \<ge> 100)
             in if shouldNotify
                then notifySubscribers (e2\<lparr> lastNotifyTime := now \<rparr>)
                else e2)"

definition destroy :: "engine \<Rightarrow> engine" where
  "destroy e =
     (let e1 = stopTicking e;
          e2 = e1\<lparr> subscribers := [] \<rparr>
      in e2\<lparr> state := (state e2)\<lparr> isRunning := False \<rparr> \<rparr>)"

text \<open>A run of the interval callback: one firing for each clock reading, in order.\<close>

fun ticks :: "real list \<Rightarrow> engine \<Rightarrow> engine" where
  "ticks [] e = e"
| "ticks (now # nows) e = ticks nows (tick now e)"

text \<open>
  The states an engine can be in: those the constructor builds, closed under the
  operations called with any arguments at any clock readings.
\<close>

inductive reachable :: "engine \<Rightarrow> bool" where
  r_new: "reachable (TimerLogic rt)"
| r_subscribe: "reachable e \<Longrightarrow> reachable (subscribe cb e)"
| r_unsubscribe: "reachable e \<Longrightarrow> reachable (unsubscribe cb e)"
| r_updateSettings: "reachable e \<Longrightarrow> reachable (updateSettings rt e)"
| r_start: "reachable e \<Longrightarrow> reachable (start now now' e)"
| r_pause: "reachable e \<Longrightarrow> reachable (pause e)"
| r_reset: "reachable e \<Longrightarrow> reachable (reset e)"
| r_toggle: "reachable e \<Longrightarrow> reachable (toggle tnow now now' e)"
| r_adjustCurrentTime: "reachable e \<Longrightarrow> reachable (adjustCurrentTime deltaMs now e)"
| r_tick: "reachable e \<Longrightarrow> reachable (tick now e)"
| r_destroy: "reachable e \<Longrightarrow> reachable (destroy e)"

section \<open>Predicates on states\<close>

text \<open>
  The invariant of the Idle phase: in Idle the timer is not running, both timestamps
  are \<open>null\<close>, and \<open>timeLeft\<close> is \<open>roundTime\<close>.
\<close>

definition idle_invariant :: "timer_state \<Rightarrow> bool" where
  "idle_invariant st \<longleftrightarrow>
     (phase st = Idle \<longrightarrow>
        \<not> isRunning st \<and> startTime st = None \<and> sessionStartTime st = None \<and>
        timeLeft st = roundTime st)"

text \<open>The same with \<open>timeLeft\<close> only bounded: \<open>0 \<le> timeLeft \<le> roundTime\<close>.\<close>

definition idle_invariant_relaxed :: "timer_state \<Rightarrow> bool" where
  "idle_invariant_relaxed st \<longleftrightarrow>
     (phase st = Idle \<longrightarrow>
        \<not> isRunning st \<and> startTime st = None \<and> sessionStartTime st = None \<and>
        0 \<le> timeLeft st \<and> timeLeft st \<le> roundTime st)"

text \<open>What every engine state satisfies: the round is at least the minimum, and the relaxed invariant.\<close>

definition engine_invariant :: "engine \<Rightarrow> bool" where
  "engine_invariant e \<longleftrightarrow>
     MIN_ROUND_TIME \<le> roundTime (state e) \<and> idle_invariant_relaxed (state e)"

text \<open>How often the trace holds the two cues.\<close>

definition soonCues :: "engine \<Rightarrow> nat" where
  "soonCues e = count_list (trace e) PlaySoon"

definition finishCues :: "engine \<Rightarrow> nat" where
  "finishCues e = count_list (trace e) PlayFinish"

text \<open>The window of \<open>timeLeft\<close> values at which \<open>checkAudioCues\<close> plays the soon cue.\<close>

definition soonWindow :: "real \<Rightarrow> bool" where
  "soonWindow t \<longleftrightarrow> t \<le> SOON_TIME \<and> t > SOON_TIME - RENDER_RATE * 2"

text \<open>
  A run of the Work phase started at \<open>s\<close> with duration \<open>d\<close>: the engine is running in
  Work and passes the guard of \<open>tick\<close>.
\<close>

definition workRun :: "real \<Rightarrow> real \<Rightarrow> engine \<Rightarrow> bool" where
  "workRun s d e \<longleftrightarrow>
     isRunning (state e) \<and> phase (state e) = Work \<and> startTime (state e) = Some s \<and> s \<noteq> 0 \<and>
     intervalId e \<noteq> None \<and> getCurrentPhaseDuration (state e) = d"

section \<open>Properties\<close>

lemmas engine_defs =
  start_def pause_def reset_def toggle_def adjustCurrentTime_def updateSettings_def
  startTicking_def stopTicking_def setInterval_def clearInterval_def
  transitionToPhase_def createPhaseTransition_def notifySubscribers_def getState_def
  getCurrentPhaseDuration_def createInitialState_def truthy_def

lemmas tick_defs =
  tick_def handlePhaseTransition_def checkAudioCues_def shouldTransitionPhase_def
  SOON_TIME_def RENDER_RATE_def

text \<open>A notification is neither cue.\<close>

lemma notify_no_cue:
  "count_list (map (\<lambda>cb. Notify cb st) cs) PlaySoon = 0"
  "count_list (map (\<lambda>cb. Notify cb st) cs) PlayFinish = 0"
  by (induction cs) simp_all

subsection \<open>Settings and construction\<close>

text \<open>
  C6. For every number \<open>d\<close>, \<open>validateSettings(d).roundTime\<close> is \<open>max(d, 30000)\<close>: it is
  \<open>30000\<close> when \<open>d < 30000\<close> and \<open>d\<close> when \<open>d \<ge> 30000\<close>. The function has no failing
  branch: it returns a settings object for every argument.
\<close>

theorem validateSettings_clamps:
  "roundTime (validateSettings d) = max d 30000 \<and>
   (d < 30000 \<longrightarrow> roundTime (validateSettings d) = 30000) \<and>
   (d \<ge> 30000 \<longrightarrow> roundTime (validateSettings d) = d)"
  by (simp add: validateSettings_def MIN_ROUND_TIME_def max_def)

theorem validateSettings_clamps_witness:
  "(1000::real) < 30000 \<and> roundTime (validateSettings 1000) = 30000 \<and>
   (45000::real) \<ge> 30000 \<and> roundTime (validateSettings 45000) = 45000"
  using validateSettings_clamps [of 1000] validateSettings_clamps [of 45000] by simp

text \<open>
  C10. An engine constructed with no \<open>roundTime\<close> option, or with \<open>roundTime\<close> \<open>0\<close>, starts
  in the initial state for the default of 300000 ms (\<open>0\<close> is falsy, so the default
  replaces it; it is not clamped up to 30000). For a supplied \<open>r \<noteq> 0\<close> the initial
  \<open>roundTime\<close> is \<open>max(r, 30000)\<close>.
\<close>

theorem TimerLogic_initial_roundTime:
  "state (TimerLogic None) = createInitialState 300000 \<and>
   roundTime (state (TimerLogic None)) = 300000 \<and>
   state (TimerLogic (Some 0)) = createInitialState 300000 \<and>
   roundTime (state (TimerLogic (Some 0))) = 300000 \<and>
   (r \<noteq> 0 \<longrightarrow> state (TimerLogic (Some r)) = createInitialState (max r 30000) \<and>
                roundTime (state (TimerLogic (Some r))) = max r 30000)"
  by (simp add: TimerLogic_def truthy_def validateSettings_def MIN_ROUND_TIME_def max_def
        createInitialState_def)

theorem TimerLogic_initial_roundTime_witness:
  "(12000::real) \<noteq> 0 \<and> roundTime (state (TimerLogic (Some 12000))) = 30000 \<and>
   (90000::real) \<noteq> 0 \<and> roundTime (state (TimerLogic (Some 90000))) = 90000"
  using TimerLogic_initial_roundTime [of 12000] TimerLogic_initial_roundTime [of 90000]
  by (simp add: createInitialState_def)

subsection \<open>Starting and resuming\<close>

text \<open>
  C9. When \<open>isRunning\<close> is true, \<open>start()\<close> returns at once: the engine is left as it
  was, every field of the state included, and the trace gains no notification.
\<close>

theorem start_running_noop:
  "isRunning (state e) \<Longrightarrow> start now now' e = e"
  by (simp add: start_def)

theorem start_running_noop_witness:
  "isRunning (state (start 1000 1001 (subscribe 7 (TimerLogic None)))) \<and>
   start 5000 5001 (start 1000 1001 (subscribe 7 (TimerLogic None))) =
     start 1000 1001 (subscribe 7 (TimerLogic None)) \<and>
   trace (start 5000 5001 (start 1000 1001 (subscribe 7 (TimerLogic None)))) =
     trace (start 1000 1001 (subscribe 7 (TimerLogic None)))"
proof -
  have running: "isRunning (state (start 1000 1001 (subscribe 7 (TimerLogic None))))"
    by (simp add: TimerLogic_def subscribe_def engine_defs Let_def split: option.splits)
  from running start_running_noop [OF running] show ?thesis by simp
qed

text \<open>
  C7. From Idle and not running, \<open>start()\<close> gives phase Work, \<open>isRunning\<close> true,
  \<open>timeLeft = roundTime\<close>, and \<open>startTime\<close> the timestamp \<open>now\<close> that \<open>start\<close> itself read,
  whatever \<open>createPhaseTransition\<close> read (\<open>now'\<close>); \<open>sessionStartTime\<close> becomes \<open>now\<close> when
  it was \<open>null\<close>.
\<close>

theorem start_from_idle:
  assumes "phase (state e) = Idle" and "\<not> isRunning (state e)"
  shows "phase (state (start now now' e)) = Work \<and>
         isRunning (state (start now now' e)) \<and>
         timeLeft (state (start now now' e)) = roundTime (state (start now now' e)) \<and>
         roundTime (state (start now now' e)) = roundTime (state e) \<and>
         startTime (state (start now now' e)) = Some now \<and>
         (sessionStartTime (state e) = None \<longrightarrow>
            sessionStartTime (state (start now now' e)) = Some now)"
  using assms
  by (simp add: engine_defs Let_def split: option.splits prod.splits)

theorem start_from_idle_witness:
  "phase (state (TimerLogic None)) = Idle \<and> \<not> isRunning (state (TimerLogic None)) \<and>
   sessionStartTime (state (TimerLogic None)) = None \<and>
   phase (state (start 1000 1007 (TimerLogic None))) = Work \<and>
   startTime (state (start 1000 1007 (TimerLogic None))) = Some 1000 \<and>
   sessionStartTime (state (start 1000 1007 (TimerLogic None))) = Some 1000 \<and>
   timeLeft (state (start 1000 1007 (TimerLogic None))) = 300000"
proof -
  have idle: "phase (state (TimerLogic None)) = Idle"
    and stopped: "\<not> isRunning (state (TimerLogic None))"
    and fresh: "sessionStartTime (state (TimerLogic None)) = None"
    and rt: "roundTime (state (TimerLogic None)) = 300000"
    by (simp_all add: TimerLogic_def createInitialState_def validateSettings_def
          MIN_ROUND_TIME_def truthy_def)
  from start_from_idle [OF idle stopped, of 1000 1007] idle stopped fresh rt
  show ?thesis by simp
qed

text \<open>
  C3. When the timer is paused in the Work phase with \<open>timeLeft = t\<close>, a \<open>start()\<close> at any
  clock reading \<open>now\<close> leaves \<open>timeLeft = t\<close> and sets
  \<open>startTime = now - (phaseDuration - t)\<close>; the length of the pause does not enter.
\<close>

theorem resume_preserves_timeLeft:
  assumes "phase (state e) = Work" and "\<not> isRunning (state e)" and "timeLeft (state e) = t"
  shows "timeLeft (state (start now now' e)) = t \<and>
         startTime (state (start now now' e)) =
           Some (now - (getCurrentPhaseDuration (state e) - t)) \<and>
         isRunning (state (start now now' e)) \<and>
         phase (state (start now now' e)) = Work"
  using assms
  by (simp add: engine_defs Let_def split: option.splits prod.splits)

text \<open>
  The scenario of a 60 s round started at 1000, ticked and paused at 51000 with 10 s
  left, and resumed 30 s later.
\<close>

theorem resume_preserves_timeLeft_witness:
  "phase (state (pause (tick 51000 (start 1000 1000 (TimerLogic (Some 60000)))))) = Work \<and>
   \<not> isRunning (state (pause (tick 51000 (start 1000 1000 (TimerLogic (Some 60000)))))) \<and>
   timeLeft (state (pause (tick 51000 (start 1000 1000 (TimerLogic (Some 60000)))))) = 10000 \<and>
   timeLeft (state (start 81000 81000
      (pause (tick 51000 (start 1000 1000 (TimerLogic (Some 60000))))))) = 10000 \<and>
   startTime (state (start 81000 81000
      (pause (tick 51000 (start 1000 1000 (TimerLogic (Some 60000))))))) = Some 31000"
proof -
  have paused: "state (pause (tick 51000 (start 1000 1000 (TimerLogic (Some 60000))))) =
      \<lparr> roundTime = 60000, isRunning = False, timeLeft = 10000, phase = Work,
        startTime = Some 1000, sessionStartTime = Some 1000, soonSoundPlayed = True \<rparr>"
    by (simp add: TimerLogic_def validateSettings_def MIN_ROUND_TIME_def engine_defs
          tick_defs Let_def)
  have work: "phase (state (pause (tick 51000 (start 1000 1000 (TimerLogic (Some 60000)))))) = Work"
    and stopped: "\<not> isRunning (state (pause (tick 51000 (start 1000 1000 (TimerLogic (Some 60000))))))"
    and left: "timeLeft (state (pause (tick 51000 (start 1000 1000 (TimerLogic (Some 60000)))))) = 10000"
    by (simp_all add: paused)
  from resume_preserves_timeLeft [OF work stopped left, of 81000 81000] work stopped left
  show ?thesis by (simp add: paused getCurrentPhaseDuration_def)
qed

subsection \<open>The Idle invariant\<close>

text \<open>Each operation but \<open>adjustCurrentTime\<close> keeps the invariant of the Idle phase.\<close>

lemma idle_invariant_start:
  "idle_invariant (state e) \<Longrightarrow> idle_invariant (state (start now now' e))"
  by (simp add: idle_invariant_def engine_defs Let_def split: option.splits prod.splits)

lemma idle_invariant_pause:
  "idle_invariant (state e) \<Longrightarrow> idle_invariant (state (pause e))"
  by (auto simp add: idle_invariant_def engine_defs Let_def split: option.splits)

lemma idle_invariant_reset:
  "idle_invariant (state (reset e))"
  by (simp add: idle_invariant_def engine_defs Let_def split: option.splits)

lemma idle_invariant_toggle:
  "idle_invariant (state e) \<Longrightarrow> idle_invariant (state (toggle tnow now now' e))"
  using idle_invariant_start [of "e\<lparr>lastActionTime := tnow\<rparr>" now now']
        idle_invariant_pause [of "e\<lparr>lastActionTime := tnow\<rparr>"]
  by (simp add: toggle_def Let_def)

lemma idle_invariant_updateSettings:
  "idle_invariant (state e) \<Longrightarrow> idle_invariant (state (updateSettings rt e))"
  by (simp add: idle_invariant_def engine_defs Let_def split: option.splits)

lemma idle_invariant_tick:
  "idle_invariant (state e) \<Longrightarrow> idle_invariant (state (tick now e))"
  by (auto simp add: idle_invariant_def engine_defs tick_defs Let_def split: option.splits)

lemma idle_invariant_adjustCurrentTime:
  "idle_invariant (state e) \<Longrightarrow> 0 \<le> deltaMs \<Longrightarrow>
   idle_invariant (state (adjustCurrentTime deltaMs now e))"
  by (auto simp add: idle_invariant_def engine_defs Let_def split: option.splits)

lemma idle_invariant_destroy:
  "idle_invariant (state e) \<Longrightarrow> idle_invariant (state (destroy e))"
  by (auto simp add: idle_invariant_def destroy_def engine_defs Let_def split: option.splits)

lemma engine_invariant_new: "engine_invariant (TimerLogic rt)"
  by (simp add: engine_invariant_def idle_invariant_relaxed_def TimerLogic_def
        validateSettings_def createInitialState_def MIN_ROUND_TIME_def)

lemma engine_invariant_subscribe:
  "engine_invariant e \<Longrightarrow> engine_invariant (subscribe cb e)"
  by (simp add: engine_invariant_def subscribe_def)

lemma engine_invariant_unsubscribe:
  "engine_invariant e \<Longrightarrow> engine_invariant (unsubscribe cb e)"
  by (simp add: engine_invariant_def unsubscribe_def)

lemma engine_invariant_updateSettings:
  "engine_invariant e \<Longrightarrow> engine_invariant (updateSettings rt e)"
  by (auto simp add: engine_invariant_def idle_invariant_relaxed_def validateSettings_def
        MIN_ROUND_TIME_def engine_defs Let_def max_def split: option.splits)

lemma engine_invariant_start:
  "engine_invariant e \<Longrightarrow> engine_invariant (start now now' e)"
  by (simp add: engine_invariant_def idle_invariant_relaxed_def engine_defs Let_def
        split: option.splits prod.splits)

lemma engine_invariant_pause:
  "engine_invariant e \<Longrightarrow> engine_invariant (pause e)"
  by (auto simp add: engine_invariant_def idle_invariant_relaxed_def engine_defs Let_def
        split: option.splits)

lemma engine_invariant_reset:
  "engine_invariant e \<Longrightarrow> engine_invariant (reset e)"
  by (auto simp add: engine_invariant_def idle_invariant_relaxed_def MIN_ROUND_TIME_def
        engine_defs Let_def split: option.splits)

lemma engine_invariant_toggle:
  "engine_invariant e \<Longrightarrow> engine_invariant (toggle tnow now now' e)"
  using engine_invariant_start [of "e\<lparr>lastActionTime := tnow\<rparr>" now now']
        engine_invariant_pause [of "e\<lparr>lastActionTime := tnow\<rparr>"]
  by (simp add: toggle_def Let_def engine_invariant_def)

lemma engine_invariant_adjustCurrentTime:
  "engine_invariant e \<Longrightarrow> engine_invariant (adjustCurrentTime deltaMs now e)"
  by (auto simp add: engine_invariant_def idle_invariant_relaxed_def MIN_ROUND_TIME_def
        engine_defs Let_def split: option.splits)

lemma engine_invariant_tick:
  "engine_invariant e \<Longrightarrow> engine_invariant (tick now e)"
  by (auto simp add: engine_invariant_def idle_invariant_relaxed_def MIN_ROUND_TIME_def
        engine_defs tick_defs Let_def split: option.splits)

lemma engine_invariant_destroy:
  "engine_invariant e \<Longrightarrow> engine_invariant (destroy e)"
  by (auto simp add: engine_invariant_def idle_invariant_relaxed_def destroy_def
        engine_defs Let_def split: option.splits)

lemma reachable_engine_invariant: "reachable e \<Longrightarrow> engine_invariant e"
proof (induction rule: reachable.induct)
  case (r_new rt)
  show ?case by (rule engine_invariant_new)
next
  case (r_subscribe e cb)
  then show ?case by (simp add: engine_invariant_subscribe)
next
  case (r_unsubscribe e cb)
  then show ?case by (simp add: engine_invariant_unsubscribe)
next
  case (r_updateSettings e rt)
  then show ?case by (simp add: engine_invariant_updateSettings)
next
  case (r_start e now now')
  then show ?case by (simp add: engine_invariant_start)
next
  case (r_pause e)
  then show ?case by (simp add: engine_invariant_pause)
next
  case (r_reset e)
  then show ?case by (simp add: engine_invariant_reset)
next
  case (r_toggle e tnow now now')
  then show ?case by (simp add: engine_invariant_toggle)
next
  case (r_adjustCurrentTime e deltaMs now)
  then show ?case by (simp add: engine_invariant_adjustCurrentTime)
next
  case (r_tick e now)
  then show ?case by (simp add: engine_invariant_tick)
next
  case (r_destroy e)
  then show ?case by (simp add: engine_invariant_destroy)
qed

lemma reachable_roundTime: "reachable e \<Longrightarrow> 30000 \<le> roundTime (state e)"
  using reachable_engine_invariant [of e]
  by (simp add: engine_invariant_def MIN_ROUND_TIME_def)

text \<open>
  C1 as stated fails: \<open>adjustCurrentTime\<close> has no test of the phase. On a fresh engine,
  still Idle, a delta of \<open>-1000\<close> leaves \<open>timeLeft = 299000\<close> beside
  \<open>roundTime = 300000\<close>.
\<close>

theorem idle_invariant_counterexample:
  "reachable (adjustCurrentTime (- 1000) 5000 (TimerLogic None)) \<and>
   phase (state (adjustCurrentTime (- 1000) 5000 (TimerLogic None))) = Idle \<and>
   timeLeft (state (adjustCurrentTime (- 1000) 5000 (TimerLogic None))) = 299000 \<and>
   roundTime (state (adjustCurrentTime (- 1000) 5000 (TimerLogic None))) = 300000 \<and>
   \<not> idle_invariant (state (adjustCurrentTime (- 1000) 5000 (TimerLogic None)))"
proof -
  have "reachable (adjustCurrentTime (- 1000) 5000 (TimerLogic None))"
    by (intro reachable.intros)
  moreover have "state (adjustCurrentTime (- 1000) 5000 (TimerLogic None)) =
    \<lparr> roundTime = 300000, isRunning = False, timeLeft = 299000, phase = Idle,
      startTime = None, sessionStartTime = None, soonSoundPlayed = False \<rparr>"
    by (simp add: TimerLogic_def validateSettings_def MIN_ROUND_TIME_def engine_defs Let_def)
  ultimately show ?thesis by (simp add: idle_invariant_def)
qed

text \<open>
  C1, amended. In every reachable state, phase Idle implies \<open>isRunning = false\<close>,
  \<open>startTime = null\<close>, \<open>sessionStartTime = null\<close> and \<open>0 \<le> timeLeft \<le> roundTime\<close>.
  \<open>start\<close>, \<open>pause\<close>, \<open>reset\<close>, \<open>toggle\<close>, \<open>updateSettings\<close> and \<open>tick\<close> keep the invariant
  with \<open>timeLeft = roundTime\<close>; \<open>adjustCurrentTime\<close> keeps it for a delta \<open>\<ge> 0\<close>.
\<close>

theorem idle_invariant_amended:
  "(reachable e \<longrightarrow> idle_invariant_relaxed (state e)) \<and>
   (idle_invariant (state e) \<longrightarrow>
      idle_invariant (state (start snow snow' e)) \<and>
      idle_invariant (state (pause e)) \<and>
      idle_invariant (state (reset e)) \<and>
      idle_invariant (state (toggle gnow gnow' gnow'' e)) \<and>
      idle_invariant (state (updateSettings rt e)) \<and>
      idle_invariant (state (tick tnow e)) \<and>
      (0 \<le> deltaMs \<longrightarrow>
         idle_invariant (state (adjustCurrentTime deltaMs anow e))))"
proof -
  have "reachable e \<longrightarrow> idle_invariant_relaxed (state e)"
    using reachable_engine_invariant [of e] by (simp add: engine_invariant_def)
  then show ?thesis
    by (simp add: idle_invariant_start idle_invariant_pause idle_invariant_reset
          idle_invariant_toggle idle_invariant_updateSettings idle_invariant_tick
          idle_invariant_adjustCurrentTime)
qed

theorem idle_invariant_amended_witness:
  "reachable (TimerLogic None) \<and>
   phase (state (TimerLogic None)) = Idle \<and>
   idle_invariant_relaxed (state (TimerLogic None)) \<and>
   idle_invariant (state (TimerLogic None)) \<and>
   idle_invariant (state (start 1000 1001 (TimerLogic None))) \<and>
   idle_invariant (state (pause (TimerLogic None))) \<and>
   idle_invariant (state (reset (TimerLogic None))) \<and>
   idle_invariant (state (toggle 2000 2001 2002 (TimerLogic None))) \<and>
   idle_invariant (state (updateSettings (Some 60000) (TimerLogic None))) \<and>
   phase (state (updateSettings (Some 60000) (TimerLogic None))) = Idle \<and>
   idle_invariant (state (tick 3000 (TimerLogic None))) \<and>
   (0::real) \<le> 5000 \<and>
   idle_invariant (state (adjustCurrentTime 5000 4000 (TimerLogic None))) \<and>
   phase (state (adjustCurrentTime 5000 4000 (TimerLogic None))) = Idle"
proof -
  have new: "reachable (TimerLogic None)"
    by (rule r_new)
  have st: "state (TimerLogic None) = createInitialState 300000"
    by (simp add: TimerLogic_def validateSettings_def MIN_ROUND_TIME_def truthy_def)
  have inv: "idle_invariant (state (TimerLogic None))"
    by (simp add: st idle_invariant_def createInitialState_def)
  have idle: "phase (state (updateSettings (Some 60000) (TimerLogic None))) = Idle"
    "phase (state (adjustCurrentTime 5000 4000 (TimerLogic None))) = Idle"
    by (simp_all add: st engine_defs validateSettings_def Let_def)
  from idle_invariant_amended [where e = "TimerLogic None" and snow = 1000 and snow' = 1001
         and gnow = 2000 and gnow' = 2001 and gnow'' = 2002 and rt = "Some 60000"
         and tnow = 3000 and deltaMs = 5000 and anow = 4000] new inv idle
  show ?thesis by (simp add: st createInitialState_def)
qed

subsection \<open>Adjusting the time\<close>

text \<open>
  C8. In every state of the engine and for every delta, \<open>adjustCurrentTime(delta)\<close>
  leaves \<open>timeLeft\<close> in the closed interval from \<open>0\<close> to the phase duration, which is
  \<open>roundTime\<close>.
\<close>

theorem adjustCurrentTime_in_range:
  assumes "reachable e"
  shows "0 \<le> timeLeft (state (adjustCurrentTime deltaMs now e)) \<and>
         timeLeft (state (adjustCurrentTime deltaMs now e))
           \<le> getCurrentPhaseDuration (state (adjustCurrentTime deltaMs now e)) \<and>
         getCurrentPhaseDuration (state (adjustCurrentTime deltaMs now e))
           = roundTime (state e)"
  using reachable_roundTime [OF assms]
  by (simp add: engine_defs Let_def)

theorem adjustCurrentTime_in_range_witness:
  "reachable (start 1000 1000 (TimerLogic (Some 60000))) \<and>
   timeLeft (state (adjustCurrentTime (- 100000) 2000 (start 1000 1000 (TimerLogic (Some 60000))))) = 0 \<and>
   0 \<le> timeLeft (state (adjustCurrentTime 100000 2000 (start 1000 1000 (TimerLogic (Some 60000))))) \<and>
   timeLeft (state (adjustCurrentTime 100000 2000 (start 1000 1000 (TimerLogic (Some 60000)))))
     \<le> 60000"
proof -
  have r: "reachable (start 1000 1000 (TimerLogic (Some 60000)))"
    by (intro reachable.intros)
  have rt: "roundTime (state (start 1000 1000 (TimerLogic (Some 60000)))) = 60000"
    by (simp add: TimerLogic_def validateSettings_def MIN_ROUND_TIME_def engine_defs Let_def)
  have low: "timeLeft (state (adjustCurrentTime (- 100000) 2000 (start 1000 1000 (TimerLogic (Some 60000))))) = 0"
    by (simp add: TimerLogic_def validateSettings_def MIN_ROUND_TIME_def engine_defs Let_def)
  from adjustCurrentTime_in_range [OF r, of 100000 2000] r rt low
  show ?thesis by simp
qed

subsection \<open>The tick\<close>

text \<open>The three outcomes of a tick: guard, expiry, and a running update.\<close>

lemma tick_guard_fails:
  "\<not> isRunning (state e) \<or> \<not> truthy (startTime (state e)) \<or> intervalId e = None \<Longrightarrow>
   tick now e = e"
  by (auto simp add: tick_def)

lemma tick_expired:
  assumes "isRunning (state e)" and "startTime (state e) = Some s" and "s \<noteq> 0"
    and "intervalId e \<noteq> None" and "getCurrentPhaseDuration (state e) - (now - s) \<le> 0"
  shows "tick now e = handlePhaseTransition
           (e\<lparr> state := (state e)\<lparr> timeLeft := getCurrentPhaseDuration (state e) - (now - s) \<rparr> \<rparr>)"
  using assms by (auto simp add: tick_def truthy_def shouldTransitionPhase_def Let_def)

lemma tick_running_state:
  assumes "isRunning (state e)" and "startTime (state e) = Some s" and "s \<noteq> 0"
    and "intervalId e \<noteq> None" and "0 < getCurrentPhaseDuration (state e) - (now - s)"
  shows "state (tick now e) = (state e)
           \<lparr> timeLeft := getCurrentPhaseDuration (state e) - (now - s),
             soonSoundPlayed := (soonSoundPlayed (state e) \<or>
                (phase (state e) = Work \<and>
                 soonWindow (getCurrentPhaseDuration (state e) - (now - s)))) \<rparr>"
    and "intervalId (tick now e) = intervalId e"
  using assms
  by (auto simp add: tick_def truthy_def shouldTransitionPhase_def checkAudioCues_def
        soonWindow_def notifySubscribers_def getState_def Let_def)

lemma tick_ignores_timeLeft:
  assumes "isRunning (state e)" and "truthy (startTime (state e))" and "intervalId e \<noteq> None"
  shows "tick now (e\<lparr> state := (state e)\<lparr> timeLeft := t' \<rparr> \<rparr>) = tick now e"
  using assms
  by (auto simp add: tick_def getCurrentPhaseDuration_def Let_def)

text \<open>
  Where the guard passes with a \<open>startTime\<close> other than \<open>0\<close>, \<open>timeLeft\<close> is recomputed
  as \<open>phaseDuration - (now - startTime)\<close>: a positive value is the \<open>timeLeft\<close> the tick
  leaves, a value \<open>\<le> 0\<close> is the \<open>timeLeft\<close> of the state handed to
  \<open>handlePhaseTransition\<close>, and the previous \<open>timeLeft\<close> has no influence on the tick.
  When \<open>isRunning\<close> is false, \<open>startTime\<close> is \<open>null\<close> or no handle is registered, the
  tick leaves the engine unchanged.
\<close>

lemma tick_recomputes_when_nonzero:
  "(isRunning (state e) \<and> startTime (state e) = Some s \<and> s \<noteq> 0 \<and> intervalId e \<noteq> None \<longrightarrow>
      (0 < getCurrentPhaseDuration (state e) - (now - s) \<longrightarrow>
         timeLeft (state (tick now e)) = getCurrentPhaseDuration (state e) - (now - s)) \<and>
      (getCurrentPhaseDuration (state e) - (now - s) \<le> 0 \<longrightarrow>
         tick now e = handlePhaseTransition
           (e\<lparr> state := (state e)
                \<lparr> timeLeft := getCurrentPhaseDuration (state e) - (now - s) \<rparr> \<rparr>)) \<and>
      tick now (e\<lparr> state := (state e)\<lparr> timeLeft := t' \<rparr> \<rparr>) = tick now e) \<and>
   (\<not> isRunning (state e) \<or> startTime (state e) = None \<or> intervalId e = None \<longrightarrow>
      tick now e = e)"
proof -
  have "tick now e = e"
    if "\<not> isRunning (state e) \<or> startTime (state e) = None \<or> intervalId e = None"
    using that by (intro tick_guard_fails) (auto simp add: truthy_def)
  moreover have "timeLeft (state (tick now e)) = getCurrentPhaseDuration (state e) - (now - s)"
    if "isRunning (state e)" "startTime (state e) = Some s" "s \<noteq> 0" "intervalId e \<noteq> None"
       "0 < getCurrentPhaseDuration (state e) - (now - s)"
    using tick_running_state(1) [OF that] by simp
  moreover have "tick now (e\<lparr> state := (state e)\<lparr> timeLeft := t' \<rparr> \<rparr>) = tick now e"
    if "isRunning (state e)" "startTime (state e) = Some s" "s \<noteq> 0" "intervalId e \<noteq> None"
    using that by (intro tick_ignores_timeLeft) (simp_all add: truthy_def)
  ultimately show ?thesis
    using tick_expired [of e s now] by blast
qed

text \<open>
  C2. On a tick at which \<open>isRunning\<close> is true, \<open>startTime\<close> is not \<open>null\<close> and the loop
  handle is registered, \<open>timeLeft\<close> is to be recomputed as
  \<open>phaseDuration - (now - startTime)\<close>. The code misses this at \<open>startTime = 0\<close>: the guard
  is the null test written as \<open>!this.state.startTime\<close>, and \<open>0\<close> is falsy, so with all
  three conditions of the claim met the tick returns at once and leaves the engine,
  \<open>timeLeft\<close> included, as it was.
\<close>

theorem tick_stalls_at_startTime_zero:
  assumes "isRunning (state e)" and "startTime (state e) = Some 0" and "intervalId e = Some h"
  shows "tick now e = e \<and> timeLeft (state (tick now e)) = timeLeft (state e)"
  using assms by (simp add: tick_def truthy_def)

text \<open>
  An engine started at clock reading \<open>0\<close> is reachable and running, with \<open>startTime = 0\<close>
  and a registered handle. A tick at \<open>1000\<close> leaves \<open>timeLeft\<close> at \<open>300000\<close> where the
  recomputation gives \<open>299000\<close>, and so does a tick at \<open>400000\<close>, after the round should
  have ended.
\<close>

theorem tick_stalls_at_startTime_zero_witness:
  "reachable (start 0 0 (TimerLogic None)) \<and>
   isRunning (state (start 0 0 (TimerLogic None))) \<and>
   startTime (state (start 0 0 (TimerLogic None))) = Some 0 \<and>
   intervalId (start 0 0 (TimerLogic None)) = Some (Handle 0) \<and>
   getCurrentPhaseDuration (state (start 0 0 (TimerLogic None))) - (1000 - 0) = 299000 \<and>
   timeLeft (state (tick 1000 (start 0 0 (TimerLogic None)))) = 300000 \<and>
   tick 1000 (start 0 0 (TimerLogic None)) = start 0 0 (TimerLogic None) \<and>
   tick 400000 (start 0 0 (TimerLogic None)) = start 0 0 (TimerLogic None)"
proof -
  have r: "reachable (start 0 0 (TimerLogic None))"
    by (intro reachable.intros)
  have st: "state (start 0 0 (TimerLogic None)) =
      \<lparr> roundTime = 300000, isRunning = True, timeLeft = 300000, phase = Work,
        startTime = Some 0, sessionStartTime = Some 0, soonSoundPlayed = False \<rparr>"
    and h: "intervalId (start 0 0 (TimerLogic None)) = Some (Handle 0)"
    by (simp_all add: TimerLogic_def validateSettings_def MIN_ROUND_TIME_def engine_defs Let_def)
  have running: "isRunning (state (start 0 0 (TimerLogic None)))"
    and zero: "startTime (state (start 0 0 (TimerLogic None))) = Some 0"
    by (simp_all add: st)
  from tick_stalls_at_startTime_zero [OF running zero h, of 1000]
       tick_stalls_at_startTime_zero [OF running zero h, of 400000] r running zero h
  show ?thesis by (simp add: st getCurrentPhaseDuration_def)
qed

text \<open>
  C4. When a tick recomputes \<open>timeLeft \<le> 0\<close> while running in the Work phase, the
  finish cue is played exactly once, the interval is cleared and the handle dropped,
  and the state is replaced by the initial state for the same \<open>roundTime\<close>: phase Idle
  and \<open>timeLeft = roundTime\<close>. A later firing of the callback does nothing.
\<close>

theorem work_phase_completes:
  assumes "isRunning (state e)" and "phase (state e) = Work"
    and "startTime (state e) = Some s" and "s \<noteq> 0" and "intervalId e = Some h"
    and "getCurrentPhaseDuration (state e) - (now - s) \<le> 0"
  shows "state (tick now e) = createInitialState (roundTime (state e)) \<and>
         phase (state (tick now e)) = Idle \<and>
         timeLeft (state (tick now e)) = roundTime (state (tick now e)) \<and>
         roundTime (state (tick now e)) = roundTime (state e) \<and>
         trace (tick now e) =
           trace e @ PlayFinish #
             map (\<lambda>cb. Notify cb (createInitialState (roundTime (state e)))) (subscribers e) \<and>
         finishCues (tick now e) = finishCues e + 1 \<and>
         intervalId (tick now e) = None \<and>
         scheduled (tick now e) = removeAll h (scheduled e) \<and>
         h \<notin> set (scheduled (tick now e)) \<and>
         tick now2 (tick now e) = tick now e"
proof -
  have ne: "intervalId e \<noteq> None"
    using assms(5) by simp
  have t: "tick now e = handlePhaseTransition
      (e\<lparr> state := (state e)\<lparr> timeLeft := getCurrentPhaseDuration (state e) - (now - s) \<rparr> \<rparr>)"
    by (rule tick_expired [OF assms(1) assms(3) assms(4) ne assms(6)])
  have st: "state (tick now e) = createInitialState (roundTime (state e))"
    and tr: "trace (tick now e) =
      trace e @ PlayFinish #
        map (\<lambda>cb. Notify cb (createInitialState (roundTime (state e)))) (subscribers e)"
    and iv: "intervalId (tick now e) = None"
    and sc: "scheduled (tick now e) = removeAll h (scheduled e)"
    using assms(2) assms(5)
    by (simp_all add: t handlePhaseTransition_def reset_def stopTicking_def clearInterval_def
          notifySubscribers_def getState_def Let_def)
  have stopped: "\<not> isRunning (state (tick now e))"
    by (simp add: st createInitialState_def)
  have "tick now2 (tick now e) = tick now e"
    by (rule tick_guard_fails) (simp add: stopped)
  with st tr iv sc show ?thesis
    by (simp add: createInitialState_def finishCues_def notify_no_cue)
qed

theorem work_phase_completes_witness:
  "isRunning (state (start 1000 1000 (subscribe 7 (TimerLogic (Some 30000))))) \<and>
   phase (state (start 1000 1000 (subscribe 7 (TimerLogic (Some 30000))))) = Work \<and>
   startTime (state (start 1000 1000 (subscribe 7 (TimerLogic (Some 30000))))) = Some 1000 \<and>
   (1000::real) \<noteq> 0 \<and>
   intervalId (start 1000 1000 (subscribe 7 (TimerLogic (Some 30000)))) = Some (Handle 0) \<and>
   getCurrentPhaseDuration (state (start 1000 1000 (subscribe 7 (TimerLogic (Some 30000)))))
     - (31000 - 1000) \<le> 0 \<and>
   state (tick 31000 (start 1000 1000 (subscribe 7 (TimerLogic (Some 30000))))) =
     createInitialState 30000 \<and>
   trace (tick 31000 (start 1000 1000 (subscribe 7 (TimerLogic (Some 30000))))) =
     trace (start 1000 1000 (subscribe 7 (TimerLogic (Some 30000)))) @
       [PlayFinish, Notify 7 (createInitialState 30000)] \<and>
   finishCues (tick 31000 (start 1000 1000 (subscribe 7 (TimerLogic (Some 30000))))) = 1 \<and>
   intervalId (tick 31000 (start 1000 1000 (subscribe 7 (TimerLogic (Some 30000))))) = None \<and>
   scheduled (tick 31000 (start 1000 1000 (subscribe 7 (TimerLogic (Some 30000))))) = []"
proof -
  have st: "state (start 1000 1000 (subscribe 7 (TimerLogic (Some 30000)))) =
      \<lparr> roundTime = 30000, isRunning = True, timeLeft = 30000, phase = Work,
        startTime = Some 1000, sessionStartTime = Some 1000, soonSoundPlayed = False \<rparr>"
    and h: "intervalId (start 1000 1000 (subscribe 7 (TimerLogic (Some 30000)))) =
      Some (Handle 0)"
    and sc: "scheduled (start 1000 1000 (subscribe 7 (TimerLogic (Some 30000)))) = [Handle 0]"
    and su: "subscribers (start 1000 1000 (subscribe 7 (TimerLogic (Some 30000)))) = [7]"
    and tr: "finishCues (start 1000 1000 (subscribe 7 (TimerLogic (Some 30000)))) = 0"
    by (simp_all add: TimerLogic_def subscribe_def validateSettings_def MIN_ROUND_TIME_def
          engine_defs finishCues_def Let_def)
  have running: "isRunning (state (start 1000 1000 (subscribe 7 (TimerLogic (Some 30000)))))"
    and work: "phase (state (start 1000 1000 (subscribe 7 (TimerLogic (Some 30000))))) = Work"
    and began: "startTime (state (start 1000 1000 (subscribe 7 (TimerLogic (Some 30000))))) =
      Some 1000"
    and over: "getCurrentPhaseDuration
        (state (start 1000 1000 (subscribe 7 (TimerLogic (Some 30000))))) - (31000 - 1000) \<le> 0"
    by (simp_all add: st getCurrentPhaseDuration_def)
  have nz: "(1000::real) \<noteq> 0" by simp
  from work_phase_completes [OF running work began nz h over] running work began h over sc su tr
  show ?thesis by (simp add: st)
qed

subsection \<open>The soon cue\<close>

lemma ticks_append: "ticks (xs @ ys) e = ticks ys (ticks xs e)"
  by (induction xs arbitrary: e) simp_all

lemma ticks_stopped: "\<not> isRunning (state e) \<Longrightarrow> ticks nows e = e"
  by (induction nows) (simp_all add: tick_guard_fails)

lemma tick_soonCues_cases:
  "soonCues (tick now e) = soonCues e \<and>
     (soonSoundPlayed (state e) \<longrightarrow>
        soonSoundPlayed (state (tick now e)) \<or> \<not> isRunning (state (tick now e)))
   \<or> soonCues (tick now e) = soonCues e + 1 \<and> \<not> soonSoundPlayed (state e) \<and>
     soonSoundPlayed (state (tick now e))"
  by (auto simp add: tick_def handlePhaseTransition_def checkAudioCues_def reset_def
        stopTicking_def clearInterval_def notifySubscribers_def getState_def
        createInitialState_def soonCues_def notify_no_cue Let_def split: option.splits)

lemma ticks_latched:
  "soonSoundPlayed (state e) \<Longrightarrow> soonCues (ticks nows e) = soonCues e"
proof (induction nows arbitrary: e)
  case Nil
  show ?case by simp
next
  case (Cons now nows)
  from tick_soonCues_cases [of now e] Cons.prems
  have same: "soonCues (tick now e) = soonCues e"
    and next_state: "soonSoundPlayed (state (tick now e)) \<or> \<not> isRunning (state (tick now e))"
    by auto
  from next_state show ?case
  proof
    assume "soonSoundPlayed (state (tick now e))"
    then show ?thesis using Cons.IH same by simp
  next
    assume "\<not> isRunning (state (tick now e))"
    then show ?thesis using ticks_stopped same by simp
  qed
qed

lemma ticks_soonCues_at_most_once:
  "soonCues (ticks nows e) \<le> soonCues e + 1"
proof (induction nows arbitrary: e)
  case Nil
  show ?case by simp
next
  case (Cons now nows)
  from tick_soonCues_cases [of now e] show ?case
  proof
    assume "soonCues (tick now e) = soonCues e \<and>
      (soonSoundPlayed (state e) \<longrightarrow>
         soonSoundPlayed (state (tick now e)) \<or> \<not> isRunning (state (tick now e)))"
    then show ?thesis using Cons.IH [of "tick now e"] by simp
  next
    assume "soonCues (tick now e) = soonCues e + 1 \<and> \<not> soonSoundPlayed (state e) \<and>
      soonSoundPlayed (state (tick now e))"
    then show ?thesis using ticks_latched [of "tick now e" nows] by simp
  qed
qed

lemma tick_workRun:
  assumes "workRun s d e" and "0 < d - (now - s)"
  shows "workRun s d (tick now e)"
    and "soonSoundPlayed (state (tick now e)) \<longleftrightarrow>
           soonSoundPlayed (state e) \<or> soonWindow (d - (now - s))"
    and "soonCues (tick now e) =
           (if soonWindow (d - (now - s)) \<and> \<not> soonSoundPlayed (state e)
            then soonCues e + 1 else soonCues e)"
  using assms
  by (auto simp add: workRun_def tick_def truthy_def shouldTransitionPhase_def
        checkAudioCues_def soonWindow_def notifySubscribers_def getState_def
        getCurrentPhaseDuration_def soonCues_def notify_no_cue Let_def)

lemma tick_outside_window:
  assumes "workRun s d e" and "\<not> soonWindow (d - (now - s))"
  shows "soonCues (tick now e) = soonCues e"
    and "soonSoundPlayed (state e) \<or> \<not> soonSoundPlayed (state (tick now e))"
    and "workRun s d (tick now e) \<or> \<not> isRunning (state (tick now e))"
  using assms
  by (auto simp add: workRun_def tick_def truthy_def shouldTransitionPhase_def
        handlePhaseTransition_def reset_def stopTicking_def clearInterval_def
        createInitialState_def
        checkAudioCues_def soonWindow_def notifySubscribers_def getState_def
        getCurrentPhaseDuration_def soonCues_def notify_no_cue Let_def)

lemma ticks_before_window:
  assumes "workRun s d e"
    and "\<forall>p\<in>set pre. 0 < d - (p - s) \<and> \<not> soonWindow (d - (p - s))"
  shows "workRun s d (ticks pre e) \<and> soonCues (ticks pre e) = soonCues e \<and>
         (soonSoundPlayed (state (ticks pre e)) \<longleftrightarrow> soonSoundPlayed (state e))"
  using assms
proof (induction pre arbitrary: e)
  case Nil
  then show ?case by simp
next
  case (Cons p pre)
  from Cons.prems have pos: "0 < d - (p - s)" and out: "\<not> soonWindow (d - (p - s))"
    by simp_all
  note step = tick_workRun [OF Cons.prems(1) pos]
  have "workRun s d (ticks pre (tick p e)) \<and>
        soonCues (ticks pre (tick p e)) = soonCues (tick p e) \<and>
        (soonSoundPlayed (state (ticks pre (tick p e))) \<longleftrightarrow> soonSoundPlayed (state (tick p e)))"
    using Cons.prems(2) by (intro Cons.IH [OF step(1)]) simp
  with step(2) step(3) out show ?case by simp
qed

lemma ticks_never_in_window:
  assumes "workRun s d e" and "\<forall>p\<in>set nows. \<not> soonWindow (d - (p - s))"
  shows "soonCues (ticks nows e) = soonCues e"
  using assms
proof (induction nows arbitrary: e)
  case Nil
  then show ?case by simp
next
  case (Cons p nows)
  from Cons.prems have out: "\<not> soonWindow (d - (p - s))"
    by simp
  note step = tick_outside_window [OF Cons.prems(1) out]
  from step(3) show ?case
  proof
    assume "workRun s d (tick p e)"
    then have "soonCues (ticks nows (tick p e)) = soonCues (tick p e)"
      using Cons.prems(2) by (intro Cons.IH) simp_all
    with step(1) show ?thesis by simp
  next
    assume "\<not> isRunning (state (tick p e))"
    then show ?thesis using ticks_stopped step(1) by simp
  qed
qed

lemma ticks_first_in_window:
  assumes "workRun s d e" and "\<not> soonSoundPlayed (state e)"
    and "\<forall>p\<in>set pre. 0 < d - (p - s) \<and> \<not> soonWindow (d - (p - s))"
    and "soonWindow (d - (n - s))"
  shows "soonCues (ticks pre e) = soonCues e"
    and "soonCues (ticks (pre @ [n]) e) = soonCues e + 1"
    and "soonCues (ticks (pre @ n # post) e) = soonCues e + 1"
proof -
  note before = ticks_before_window [OF assms(1) assms(3)]
  from before show "soonCues (ticks pre e) = soonCues e"
    by simp
  have pos: "0 < d - (n - s)"
    using assms(4) by (simp add: soonWindow_def SOON_TIME_def RENDER_RATE_def)
  from before have run: "workRun s d (ticks pre e)"
    and unlatched: "\<not> soonSoundPlayed (state (ticks pre e))"
    using assms(2) by simp_all
  note step = tick_workRun [OF run pos]
  have fired: "soonCues (tick n (ticks pre e)) = soonCues e + 1"
    using step(3) unlatched assms(4) before by simp
  have latched: "soonSoundPlayed (state (tick n (ticks pre e)))"
    using step(2) assms(4) by simp
  show "soonCues (ticks (pre @ [n]) e) = soonCues e + 1"
    using fired by (simp add: ticks_append)
  show "soonCues (ticks (pre @ n # post) e) = soonCues e + 1"
    using ticks_latched [OF latched, of post] fired by (simp add: ticks_append)
qed

text \<open>
  C5 as stated fails: the cue needs a tick inside the window. In a 30 s round started
  at \<open>1000\<close>, ticks at \<open>20900\<close> and \<open>21100\<close> see \<open>timeLeft = 10100\<close> and then \<open>9900\<close>,
  below the window; the round runs to its end with the finish cue and no soon cue.
\<close>

theorem soon_cue_missed_counterexample:
  "workRun 1000 30000 (start 1000 1000 (TimerLogic (Some 30000))) \<and>
   \<not> soonSoundPlayed (state (start 1000 1000 (TimerLogic (Some 30000)))) \<and>
   soonCues (start 1000 1000 (TimerLogic (Some 30000))) = 0 \<and>
   timeLeft (state (ticks [20900] (start 1000 1000 (TimerLogic (Some 30000))))) = 10100 \<and>
   timeLeft (state (ticks [20900, 21100] (start 1000 1000 (TimerLogic (Some 30000))))) = 9900 \<and>
   phase (state (ticks [20900, 21100] (start 1000 1000 (TimerLogic (Some 30000))))) = Work \<and>
   soonCues (ticks [20900, 21100] (start 1000 1000 (TimerLogic (Some 30000)))) = 0 \<and>
   phase (state (ticks [20900, 21100, 26000, 31000]
      (start 1000 1000 (TimerLogic (Some 30000))))) = Idle \<and>
   finishCues (ticks [20900, 21100, 26000, 31000]
      (start 1000 1000 (TimerLogic (Some 30000)))) = 1 \<and>
   soonCues (ticks [20900, 21100, 26000, 31000]
      (start 1000 1000 (TimerLogic (Some 30000)))) = 0"
proof -
  have e0: "start 1000 1000 (TimerLogic (Some 30000)) =
    \<lparr> state = \<lparr> roundTime = 30000, isRunning = True, timeLeft = 30000, phase = Work,
                startTime = Some 1000, sessionStartTime = Some 1000,
                soonSoundPlayed = False \<rparr>,
      subscribers = [], intervalId = Some (Handle 0), lastActionTime = 0,
      lastNotifyTime = 0, trace = [AudioInitialize], scheduled = [Handle 0], issued = 1 \<rparr>"
    by (simp add: TimerLogic_def validateSettings_def MIN_ROUND_TIME_def engine_defs Let_def)
  show ?thesis
    by (simp add: e0 workRun_def soonCues_def finishCues_def tick_defs reset_def
          stopTicking_def clearInterval_def notifySubscribers_def getState_def
          getCurrentPhaseDuration_def createInitialState_def truthy_def Let_def)
qed

text \<open>
  C5, amended. Over any sequence of ticks the soon cue is invoked at most once. In a
  run of the Work phase with the latch clear, it is invoked exactly once, at the first
  tick whose recomputed \<open>timeLeft\<close> lies in the window
  \<open>SOON_TIME - 2 * RENDER_RATE < timeLeft \<le> SOON_TIME\<close> (the ticks before it being
  positive and outside the window), and never again whatever ticks follow; when no
  tick falls in the window it is not invoked at all.
\<close>

theorem soon_cue_once_in_window:
  "soonCues (ticks nows e) \<le> soonCues e + 1 \<and>
   (workRun s d e \<and> \<not> soonSoundPlayed (state e) \<and>
    (\<forall>p\<in>set pre. 0 < d - (p - s) \<and> \<not> soonWindow (d - (p - s))) \<and>
    soonWindow (d - (n - s)) \<longrightarrow>
      soonCues (ticks pre e) = soonCues e \<and>
      soonCues (ticks (pre @ [n]) e) = soonCues e + 1 \<and>
      soonCues (ticks (pre @ n # post) e) = soonCues e + 1) \<and>
   (workRun s d e \<and> (\<forall>p\<in>set nows. \<not> soonWindow (d - (p - s))) \<longrightarrow>
      soonCues (ticks nows e) = soonCues e)"
proof (intro conjI impI)
  show "soonCues (ticks nows e) \<le> soonCues e + 1"
    by (rule ticks_soonCues_at_most_once)
next
  assume a: "workRun s d e \<and> \<not> soonSoundPlayed (state e) \<and>
    (\<forall>p\<in>set pre. 0 < d - (p - s) \<and> \<not> soonWindow (d - (p - s))) \<and>
    soonWindow (d - (n - s))"
  then show "soonCues (ticks pre e) = soonCues e"
    by (intro ticks_first_in_window(1) [of s d e pre n]) simp_all
  from a show "soonCues (ticks (pre @ [n]) e) = soonCues e + 1"
    by (intro ticks_first_in_window(2) [of s d e pre n]) simp_all
  from a show "soonCues (ticks (pre @ n # post) e) = soonCues e + 1"
    by (intro ticks_first_in_window(3) [of s d e pre n]) simp_all
next
  assume "workRun s d e \<and> (\<forall>p\<in>set nows. \<not> soonWindow (d - (p - s)))"
  then show "soonCues (ticks nows e) = soonCues e"
    by (intro ticks_never_in_window [of s d e nows]) simp_all
qed

theorem soon_cue_once_in_window_witness:
  "workRun 1000 30000 (start 1000 1000 (TimerLogic (Some 30000))) \<and>
   \<not> soonSoundPlayed (state (start 1000 1000 (TimerLogic (Some 30000)))) \<and>
   (0::real) < 30000 - (20900 - 1000) \<and> \<not> soonWindow (30000 - (20900 - 1000)) \<and>
   (0::real) < 30000 - (20950 - 1000) \<and> \<not> soonWindow (30000 - (20950 - 1000)) \<and>
   soonWindow (30000 - (21000 - 1000)) \<and>
   soonCues (start 1000 1000 (TimerLogic (Some 30000))) = 0 \<and>
   soonCues (ticks [20900, 20950] (start 1000 1000 (TimerLogic (Some 30000)))) = 0 \<and>
   soonCues (ticks ([20900, 20950] @ [21000]) (start 1000 1000 (TimerLogic (Some 30000)))) = 1 \<and>
   soonCues (ticks ([20900, 20950] @ 21000 # [21033, 26000, 31000])
      (start 1000 1000 (TimerLogic (Some 30000)))) = 1 \<and>
   \<not> soonWindow (30000 - (20900 - 1000)) \<and> \<not> soonWindow (30000 - (21100 - 1000)) \<and>
   \<not> soonWindow (30000 - (31000 - 1000)) \<and>
   soonCues (ticks [20900, 21100, 31000] (start 1000 1000 (TimerLogic (Some 30000)))) = 0"
proof -
  have run: "workRun 1000 30000 (start 1000 1000 (TimerLogic (Some 30000)))"
    and unlatched: "\<not> soonSoundPlayed (state (start 1000 1000 (TimerLogic (Some 30000))))"
    and none: "soonCues (start 1000 1000 (TimerLogic (Some 30000))) = 0"
    by (simp_all add: workRun_def soonCues_def TimerLogic_def validateSettings_def
          MIN_ROUND_TIME_def engine_defs Let_def)
  have before: "\<forall>p\<in>set [20900, 20950].
      0 < 30000 - (p - 1000) \<and> \<not> soonWindow (30000 - (p - (1000::real)))"
    and at: "soonWindow (30000 - (21000 - 1000))"
    and outside: "\<forall>p\<in>set [20900, 21100, 31000]. \<not> soonWindow (30000 - (p - (1000::real)))"
    by (simp_all add: soonWindow_def SOON_TIME_def RENDER_RATE_def)
  from soon_cue_once_in_window [of "[20900, 21100, 31000]"
         "start 1000 1000 (TimerLogic (Some 30000))" 1000 30000 "[20900, 20950]" 21000
         "[21033, 26000, 31000]"]
       run unlatched none before at outside
  show ?thesis by simp
qed

end
